theory Spec2Isabelle
  imports Main "HOL-Library.AList"
begin

section \<open>Data model\<close>

text \<open>
  The repository holds two generations of the reconciliation command: the older
  \<^verbatim>\<open>sync\<close> and the newer \<^verbatim>\<open>apply\<close>, each with its own copy of the two pollers
  \<^verbatim>\<open>waitForCreate\<close> and \<^verbatim>\<open>waitForEnable\<close>, and the catalog cache \<^verbatim>\<open>availableAPIs\<close>.
  Go strings are byte sequences, so a Go string is a \<^typ>\<open>string\<close> whose characters are
  bytes, and \<^verbatim>\<open>len\<close> is \<^const>\<open>length\<close>.
\<close>

subsection \<open>Values exchanged with the remote services\<close>

text \<open>\<^verbatim>\<open>Operation.Error\<close>: the status of a failed long-running operation.\<close>

record Status =
  Code :: int
  Message :: string

text \<open>
  A long-running operation of the resource manager or of service usage; both Go types
  have the three fields the pollers read.
\<close>

record Operation =
  op_Name :: string
  op_Error :: "Status option"
  op_Done :: bool

text \<open>
  \<^verbatim>\<open>cloudresourcemanager.Project\<close>. The labels of a project that travels to or from
  the remote service are a value: the pairs of the map, in some order.
\<close>

record Project =
  project_Name :: string
  ProjectId :: string
  project_Labels :: "(string \<times> string) list"
  ProjectNumber :: int

record ProjectBillingInfo =
  BillingAccountName :: string
  BillingEnabled :: bool

record BillingAccount =
  account_Name :: string
  DisplayName :: string
  Open :: bool

text \<open>
  \<^verbatim>\<open>Service.Config\<close> is a pointer that the code dereferences unchecked;
  \<^verbatim>\<open>Config.Documentation\<close> is a pointer that the code checks, and only its summary
  is read.
\<close>

record ServiceConfig =
  config_Name :: string
  config_Title :: string
  Documentation :: "string option"

record Service =
  Config :: "ServiceConfig option"
  State :: string

subsection \<open>Errors\<close>

text \<open>
  One constructor for each \<^verbatim>\<open>fmt.Errorf\<close> and \<^verbatim>\<open>errors.New\<close> of the source, holding
  what the format string holds. \<^verbatim>\<open>GoogleApiError\<close> is a \<^verbatim>\<open>*googleapi.Error\<close> with its
  HTTP code, \<^verbatim>\<open>OtherError\<close> any other error of a library, and \<^verbatim>\<open>NilDereference\<close> the
  panic of reading through a nil pointer.
\<close>

datatype error =
    GoogleApiError int string
  | OtherError string
  | NilDereference
  | ErrPerformingOperation int string
  | ErrGettingOperationInfo error
  | NameInvalid string
  | ErrCreatingProject error
  | ErrGettingProjectAfterCreate error
  | ErrEnableCall error
  | ErrEnablingBillingAPI error
  | ErrInitBillingAPI error
  | ErrGettingBillingInfo string error
  | ErrListingBillingAccounts error
  | NoBillingAccount nat nat
  | ErrUpdatingBillingInfo error
  | BillingStillNotEnabled ProjectBillingInfo
  | ErrInitServiceUsage error
  | ErrListingServices string error
  | NoSuchAPI string
  | TooManyAPIs
  | ErrEnablingAPIs nat error
  | ErrGettingUserCacheDir error
  | ErrCreatingCacheDir error
  | ErrGettingListOfAPIs error
  | ErrDecodingCache string error
  | ErrMarshalling error
  | ErrWritingCache error

subsection \<open>The declarative specification and the label store\<close>

text \<open>
  Go maps are references. A label map lives in a store of cells; a cell holds the pairs of
  the map in the order in which \<^verbatim>\<open>range\<close> visits them in this run (Go leaves the order
  open, and every order is some list). \<^verbatim>\<open>make\<close> takes the next unused address.
\<close>

type_synonym addr = nat

record heap =
  cells :: "addr \<Rightarrow> (string \<times> string) list"
  nxt :: addr

definition make_map :: "heap \<Rightarrow> addr \<times> heap" where
  "make_map h = (nxt h, h\<lparr>cells := (cells h)(nxt h := []), nxt := Suc (nxt h)\<rparr>)"

text \<open>\<^verbatim>\<open>m[k] = v\<close> on the map at address \<open>a\<close>.\<close>

definition map_store :: "addr \<Rightarrow> string \<Rightarrow> string \<Rightarrow> heap \<Rightarrow> heap" where
  "map_store a k v h = h\<lparr>cells := (cells h)(a := AList.update k v (cells h a))\<rparr>"

text \<open>The pairs that \<^verbatim>\<open>range m\<close> visits; a nil map has none.\<close>

definition map_range :: "addr option \<Rightarrow> heap \<Rightarrow> (string \<times> string) list" where
  "map_range m h = (case m of None \<Rightarrow> [] | Some a \<Rightarrow> cells h a)"

record ProjectSpec =
  Name :: string
  ID :: string
  Labels :: "addr option"
  APIs :: "string list"
  Billing :: string

subsection \<open>The remote services\<close>

text \<open>
  \<^verbatim>\<open>context.Context\<close>: the background context, or a context with a timeout in
  milliseconds derived from another one.
\<close>

datatype "context" = Background | WithTimeout "context" nat

text \<open>The remote calls, as they are recorded when the engine issues them.\<close>

datatype call =
    ProjectsGet string
  | ProjectsCreate Project
  | CrmOperationsGet string
  | GetBillingInfo string
  | BillingAccountsList
  | UpdateBillingInfo string string
  | ServicesList string
  | ServicesListPages string
  | BatchEnable string "string list"
  | SuOperationsGet string

text \<open>The calls that change remote state.\<close>

fun mutating :: "call \<Rightarrow> bool" where
  "mutating (ProjectsCreate p) = True"
| "mutating (UpdateBillingInfo n a) = True"
| "mutating (BatchEnable n ids) = True"
| "mutating c = False"

text \<open>
  The client libraries and the operating system are parameters. Each operation reads the
  world \<open>'w\<close> and returns its answer with the world after the call. \<open>ticker\<close> is the
  world after one period of the 400 ms ticker of the pollers.
\<close>

record 'w facade =
  Projects_Get :: "context \<Rightarrow> string \<Rightarrow> 'w \<Rightarrow> (error + Project) \<times> 'w"
  Projects_Create :: "context \<Rightarrow> Project \<Rightarrow> 'w \<Rightarrow> (error + Operation) \<times> 'w"
  crm_Operations_Get :: "context \<Rightarrow> string \<Rightarrow> 'w \<Rightarrow> (error + Operation) \<times> 'w"
  Projects_GetBillingInfo :: "context \<Rightarrow> string \<Rightarrow> 'w \<Rightarrow> (error + ProjectBillingInfo) \<times> 'w"
  BillingAccounts_List :: "context \<Rightarrow> 'w \<Rightarrow> (error + BillingAccount list) \<times> 'w"
  Projects_UpdateBillingInfo ::
    "context \<Rightarrow> string \<Rightarrow> string \<Rightarrow> 'w \<Rightarrow> (error + ProjectBillingInfo) \<times> 'w"
  Services_List :: "string \<Rightarrow> 'w \<Rightarrow> (error + Service list) \<times> 'w"
  Services_BatchEnable :: "context \<Rightarrow> string \<Rightarrow> string list \<Rightarrow> 'w \<Rightarrow> (error + Operation) \<times> 'w"
  su_Operations_Get :: "context \<Rightarrow> string \<Rightarrow> 'w \<Rightarrow> (error + Operation) \<times> 'w"
  ticker :: "'w \<Rightarrow> 'w"

text \<open>
  What the run finds locally: the default credentials, the decoded specification file,
  the constructors of the three service clients, and the clock.
\<close>

record env =
  FindDefaultCredentials :: "error option"
  readProjectSpec :: "error + ProjectSpec"
  crm_NewService :: "error option"
  su_NewService :: "error option"
  billing_NewService :: "error option"
  time_Now :: string

text \<open>The state of a run: the world, the label store, and the remote calls issued so far.\<close>

record 'w state =
  world :: 'w
  heap :: heap
  calls :: "call list"

definition remote_call :: "call \<Rightarrow> ('w \<Rightarrow> 'r \<times> 'w) \<Rightarrow> 'w state \<Rightarrow> 'r \<times> 'w state" where
  "remote_call c op s =
     (case op (world s) of (r, w') \<Rightarrow> (r, s\<lparr>world := w', calls := calls s @ [c]\<rparr>))"

section \<open>The pollers\<close>

text \<open>
  \<^verbatim>\<open>for range t.C\<close>: each turn waits for the next tick and fetches the operation with
  the caller's context. The loop has three exits, all inside the body; the ticker's
  channel is never closed, so the statement after the loop is not reached. A loop that
  never takes an exit does not return: its value is \<open>None\<close>.
\<close>

partial_function (option) waitForCreate_loop ::
  "'w facade \<Rightarrow> context \<Rightarrow> string \<Rightarrow> 'w state \<Rightarrow> (error option \<times> 'w state) option"
where
  "waitForCreate_loop f ctx name s =
     (case remote_call (CrmOperationsGet name) (crm_Operations_Get f ctx name)
             (s\<lparr>world := ticker f (world s)\<rparr>) of
        (Inl err, s') \<Rightarrow> Some (Some (ErrGettingOperationInfo err), s')
      | (Inr op, s') \<Rightarrow>
          (case op_Error op of
             Some e \<Rightarrow> Some (Some (ErrPerformingOperation (Code e) (Message e)), s')
           | None \<Rightarrow>
               if op_Done op then Some (None, s') else waitForCreate_loop f ctx name s'))"

definition waitForCreate ::
  "'w facade \<Rightarrow> context \<Rightarrow> Operation \<Rightarrow> 'w state \<Rightarrow> (error option \<times> 'w state) option"
where
  "waitForCreate f ctx op s =
     (case op_Error op of
        Some e \<Rightarrow> Some (Some (ErrPerformingOperation (Code e) (Message e)), s)
      | None \<Rightarrow>
          if op_Done op then Some (None, s) else waitForCreate_loop f ctx (op_Name op) s)"

partial_function (option) waitForEnable_loop ::
  "'w facade \<Rightarrow> context \<Rightarrow> string \<Rightarrow> 'w state \<Rightarrow> (error option \<times> 'w state) option"
where
  "waitForEnable_loop f ctx name s =
     (case remote_call (SuOperationsGet name) (su_Operations_Get f ctx name)
             (s\<lparr>world := ticker f (world s)\<rparr>) of
        (Inl err, s') \<Rightarrow> Some (Some (ErrGettingOperationInfo err), s')
      | (Inr op, s') \<Rightarrow>
          (case op_Error op of
             Some e \<Rightarrow> Some (Some (ErrPerformingOperation (Code e) (Message e)), s')
           | None \<Rightarrow>
               if op_Done op then Some (None, s') else waitForEnable_loop f ctx name s'))"

definition waitForEnable ::
  "'w facade \<Rightarrow> context \<Rightarrow> Operation \<Rightarrow> 'w state \<Rightarrow> (error option \<times> 'w state) option"
where
  "waitForEnable f ctx op s =
     (case op_Error op of
        Some e \<Rightarrow> Some (Some (ErrPerformingOperation (Code e) (Message e)), s)
      | None \<Rightarrow>
          if op_Done op then Some (None, s) else waitForEnable_loop f ctx (op_Name op) s)"

section \<open>Shared helpers\<close>

text \<open>\<^verbatim>\<open>%d\<close> and \<^verbatim>\<open>strconv.FormatInt(n, 10)\<close>: the decimal digits of an integer.\<close>

fun digits :: "nat \<Rightarrow> string" where
  "digits n =
     (if n < 10 then [''0123456789'' ! n]
      else digits (n div 10) @ [''0123456789'' ! (n mod 10)])"

declare digits.simps [simp del]

definition decimal :: "int \<Rightarrow> string" where
  "decimal n = (if n < 0 then CHR ''-'' # digits (nat (- n)) else digits (nat n))"

definition formatProjectNumber :: "int \<Rightarrow> string" where
  "formatProjectNumber n = ''projects/'' @ decimal n"

text \<open>
  The rewrite at the head of the loop over \<^verbatim>\<open>spec.APIs\<close>, the same text in both
  commands: a name in which \<^verbatim>\<open>strings.Contains\<close> finds no \<^verbatim>\<open>"."\<close> gets the
  suffix; any other name stays.
\<close>

definition normalizeAPI :: "string \<Rightarrow> string" where
  "normalizeAPI requestedAPI =
     (if CHR ''.'' \<notin> set requestedAPI then requestedAPI @ ''.googleapis.com''
      else requestedAPI)"

text \<open>\<^verbatim>\<open>e, ok := err.(*googleapi.Error); ok && e.Code == 403\<close>\<close>

fun is403 :: "error \<Rightarrow> bool" where
  "is403 (GoogleApiError code msg) = (code = 403)"
| "is403 err = False"

text \<open>
  The new project's label map: a fresh map, the pairs of the specification's map stored
  into it one by one, then the marker.
\<close>

definition copy_labels :: "ProjectSpec \<Rightarrow> string \<Rightarrow> string \<Rightarrow> heap \<Rightarrow> addr \<times> heap" where
  "copy_labels spec marker val h =
     (case make_map h of (labels, h1) \<Rightarrow>
        (labels,
         map_store labels marker val
           (fold (\<lambda>(k, v). map_store labels k v) (map_range (Labels spec) h1) h1)))"

text \<open>The loop that keeps the open billing accounts, and the choice that follows it.\<close>

definition openAccounts :: "BillingAccount list \<Rightarrow> BillingAccount list" where
  "openAccounts accounts = fold (\<lambda>a acc. if Open a then acc @ [a] else acc) accounts []"

definition lookup_account ::
  "'w facade \<Rightarrow> context \<Rightarrow> 'w state \<Rightarrow> (error + string) \<times> 'w state" where
  "lookup_account f ctx s =
     (case remote_call BillingAccountsList (BillingAccounts_List f ctx) s of
        (Inl err, s1) \<Rightarrow> (Inl (ErrListingBillingAccounts err), s1)
      | (Inr accounts, s1) \<Rightarrow>
          (if length (openAccounts accounts) = 1
           then (Inr (account_Name (openAccounts accounts ! 0)), s1)
           else (Inl (NoBillingAccount (length accounts) (length (openAccounts accounts))),
                 s1)))"

text \<open>The update of the billing link and the check of the link that comes back.\<close>

definition update_billing ::
  "'w facade \<Rightarrow> context \<Rightarrow> string \<Rightarrow> ProjectBillingInfo \<Rightarrow> string \<Rightarrow> 'w state
     \<Rightarrow> error option \<times> 'w state" where
  "update_billing f ctx projNum billingInfo account s =
     (if BillingAccountName billingInfo \<noteq> account then
        (case remote_call (UpdateBillingInfo projNum account)
                (Projects_UpdateBillingInfo f ctx projNum account) s of
           (Inl err, s1) \<Rightarrow> (Some (ErrUpdatingBillingInfo err), s1)
         | (Inr updatedBilling, s1) \<Rightarrow>
             (if \<not> BillingEnabled updatedBilling
              then (Some (BillingStillNotEnabled updatedBilling), s1)
              else (None, s1)))
      else (None, s))"

text \<open>The batch update of a non-empty list, behind the limit of 20.\<close>

definition batch_enable ::
  "'w facade \<Rightarrow> context \<Rightarrow> string \<Rightarrow> string list \<Rightarrow> 'w state
     \<Rightarrow> (error option \<times> 'w state) option" where
  "batch_enable f ctx projNum toEnable s =
     (if length toEnable > 0 then
        (if length toEnable > 20 then Some (Some TooManyAPIs, s)
         else
           (case remote_call (BatchEnable projNum toEnable)
                   (Services_BatchEnable f ctx projNum toEnable) s of
              (Inl err, s1) \<Rightarrow> Some (Some (ErrEnableCall err), s1)
            | (Inr enableOp, s1) \<Rightarrow>
                (case waitForEnable f ctx enableOp s1 of
                   None \<Rightarrow> None
                 | Some (Some err, s2) \<Rightarrow>
                     Some (Some (ErrEnablingAPIs (length toEnable) err), s2)
                 | Some (None, s2) \<Rightarrow> Some (None, s2))))
      else Some (None, s))"

section \<open>The newer command: apply\<close>

text \<open>
  The creation branch: the project record with its own label map, the create call, the
  wait of at most five seconds, the second fetch, and the bootstrap enablement of the
  billing API with its own wait under the caller's context.
\<close>

definition apply_create ::
  "'w facade \<Rightarrow> context \<Rightarrow> ProjectSpec \<Rightarrow> 'w state \<Rightarrow> ((error + Project) \<times> 'w state) option"
where
  "apply_create f ctx spec s =
     (case copy_labels spec ''managed-by'' ''gproj'' (heap s) of (labels, h) \<Rightarrow>
        (let project = \<lparr>project_Name = Name spec, ProjectId = ID spec,
                        project_Labels = cells h labels, ProjectNumber = 0\<rparr>
         in case remote_call (ProjectsCreate project) (Projects_Create f ctx project)
                   (s\<lparr>heap := h\<rparr>) of
              (Inl err, s1) \<Rightarrow> Some (Inl (ErrCreatingProject err), s1)
            | (Inr createOp, s1) \<Rightarrow>
                (case waitForCreate f (WithTimeout ctx 5000) createOp s1 of
                   None \<Rightarrow> None
                 | Some (Some err, s2) \<Rightarrow> Some (Inl (ErrCreatingProject err), s2)
                 | Some (None, s2) \<Rightarrow>
                     (case remote_call (ProjectsGet (ID spec)) (Projects_Get f ctx (ID spec)) s2 of
                        (Inl err, s3) \<Rightarrow> Some (Inl (ErrGettingProjectAfterCreate err), s3)
                      | (Inr created, s3) \<Rightarrow>
                          (let projNum = formatProjectNumber (ProjectNumber created)
                           in case remote_call
                                     (BatchEnable projNum [''cloudbilling.googleapis.com''])
                                     (Services_BatchEnable f ctx projNum
                                        [''cloudbilling.googleapis.com'']) s3 of
                                (Inl err, s4) \<Rightarrow> Some (Inl (ErrEnableCall err), s4)
                              | (Inr enableOp, s4) \<Rightarrow>
                                  (case waitForEnable f ctx enableOp s4 of
                                     None \<Rightarrow> None
                                   | Some (Some err, s5) \<Rightarrow>
                                       Some (Inl (ErrEnablingBillingAPI err), s5)
                                   | Some (None, s5) \<Rightarrow> Some (Inr created, s5)))))))"

text \<open>Fetch the project; only a 403 leads to creation, any other error ends the run.\<close>

definition apply_project ::
  "'w facade \<Rightarrow> context \<Rightarrow> ProjectSpec \<Rightarrow> 'w state \<Rightarrow> ((error + Project) \<times> 'w state) option"
where
  "apply_project f ctx spec s =
     (case remote_call (ProjectsGet (ID spec)) (Projects_Get f ctx (ID spec)) s of
        (Inr project, s1) \<Rightarrow> Some (Inr project, s1)
      | (Inl err, s1) \<Rightarrow> if is403 err then apply_create f ctx spec s1 else Some (Inl err, s1))"

text \<open>The account to link: the literal of the specification unless it is \<^verbatim>\<open>"enable"\<close>.\<close>

definition apply_account ::
  "'w facade \<Rightarrow> context \<Rightarrow> ProjectSpec \<Rightarrow> 'w state \<Rightarrow> (error + string) \<times> 'w state" where
  "apply_account f ctx spec s =
     (if Billing spec = ''enable'' then lookup_account f ctx s else (Inr (Billing spec), s))"

text \<open>The billing client, the current link, the account, and the update.\<close>

definition apply_billing ::
  "env \<Rightarrow> 'w facade \<Rightarrow> context \<Rightarrow> ProjectSpec \<Rightarrow> Project \<Rightarrow> 'w state \<Rightarrow> error option \<times> 'w state"
where
  "apply_billing e f ctx spec project s =
     (case billing_NewService e of
        Some err \<Rightarrow> (Some (ErrInitBillingAPI err), s)
      | None \<Rightarrow>
          (let projNum = formatProjectNumber (ProjectNumber project)
           in case remote_call (GetBillingInfo projNum) (Projects_GetBillingInfo f ctx projNum) s of
                (Inl err, s1) \<Rightarrow> (Some (ErrGettingBillingInfo (ID spec) err), s1)
              | (Inr billingInfo, s1) \<Rightarrow>
                  (case apply_account f ctx spec s1 of
                     (Inl err, s2) \<Rightarrow> (Some err, s2)
                   | (Inr account, s2) \<Rightarrow> update_billing f ctx projNum billingInfo account s2)))"

text \<open>The list to enable: every requested name, rewritten, whatever its remote state.\<close>

definition apply_toEnable :: "ProjectSpec \<Rightarrow> string list" where
  "apply_toEnable spec =
     fold (\<lambda>requestedAPI toEnable. toEnable @ [normalizeAPI requestedAPI]) (APIs spec) []"

text \<open>The command itself; \<open>apply\<close> is a word of the proof language, hence the suffix.\<close>

definition apply_cmd ::
  "env \<Rightarrow> 'w facade \<Rightarrow> context \<Rightarrow> 'w state \<Rightarrow> (error option \<times> 'w state) option" where
  "apply_cmd e f ctx s =
     (case FindDefaultCredentials e of
        Some err \<Rightarrow> Some (Some err, s)
      | None \<Rightarrow>
     (case readProjectSpec e of
        Inl err \<Rightarrow> Some (Some err, s)
      | Inr spec \<Rightarrow>
     (if length (Name spec) < 4 then Some (Some (NameInvalid (Name spec)), s) else
     (case crm_NewService e of
        Some err \<Rightarrow> Some (Some err, s)
      | None \<Rightarrow>
     (case su_NewService e of
        Some err \<Rightarrow> Some (Some (ErrInitServiceUsage err), s)
      | None \<Rightarrow>
     (case apply_project f ctx spec s of
        None \<Rightarrow> None
      | Some (Inl err, s1) \<Rightarrow> Some (Some err, s1)
      | Some (Inr project, s1) \<Rightarrow>
     (case apply_billing e f ctx spec project s1 of
        (Some err, s2) \<Rightarrow> Some (Some err, s2)
      | (None, s2) \<Rightarrow>
          batch_enable f ctx (formatProjectNumber (ProjectNumber project))
            (apply_toEnable spec) s2)))))))"

section \<open>The older command: sync\<close>

text \<open>
  The same creation branch with another marker (the time of creation), and without the
  bootstrap enablement.
\<close>

definition sync_create ::
  "env \<Rightarrow> 'w facade \<Rightarrow> context \<Rightarrow> ProjectSpec \<Rightarrow> 'w state
     \<Rightarrow> ((error + Project) \<times> 'w state) option"
where
  "sync_create e f ctx spec s =
     (case copy_labels spec ''gproj-created-at'' (time_Now e) (heap s) of (labels, h) \<Rightarrow>
        (let project = \<lparr>project_Name = Name spec, ProjectId = ID spec,
                        project_Labels = cells h labels, ProjectNumber = 0\<rparr>
         in case remote_call (ProjectsCreate project) (Projects_Create f ctx project)
                   (s\<lparr>heap := h\<rparr>) of
              (Inl err, s1) \<Rightarrow> Some (Inl (ErrCreatingProject err), s1)
            | (Inr createOp, s1) \<Rightarrow>
                (case waitForCreate f (WithTimeout ctx 5000) createOp s1 of
                   None \<Rightarrow> None
                 | Some (Some err, s2) \<Rightarrow> Some (Inl (ErrCreatingProject err), s2)
                 | Some (None, s2) \<Rightarrow>
                     (case remote_call (ProjectsGet (ID spec)) (Projects_Get f ctx (ID spec)) s2 of
                        (Inl err, s3) \<Rightarrow> Some (Inl (ErrGettingProjectAfterCreate err), s3)
                      | (Inr created, s3) \<Rightarrow> Some (Inr created, s3)))))"

definition sync_project ::
  "env \<Rightarrow> 'w facade \<Rightarrow> context \<Rightarrow> ProjectSpec \<Rightarrow> 'w state
     \<Rightarrow> ((error + Project) \<times> 'w state) option"
where
  "sync_project e f ctx spec s =
     (case remote_call (ProjectsGet (ID spec)) (Projects_Get f ctx (ID spec)) s of
        (Inr project, s1) \<Rightarrow> Some (Inr project, s1)
      | (Inl err, s1) \<Rightarrow> if is403 err then sync_create e f ctx spec s1 else Some (Inl err, s1))"

text \<open>The account to link: the literal of the specification unless it is empty.\<close>

definition sync_account ::
  "'w facade \<Rightarrow> context \<Rightarrow> ProjectSpec \<Rightarrow> 'w state \<Rightarrow> (error + string) \<times> 'w state" where
  "sync_account f ctx spec s =
     (if Billing spec = [] then lookup_account f ctx s else (Inr (Billing spec), s))"

definition sync_billing ::
  "env \<Rightarrow> 'w facade \<Rightarrow> context \<Rightarrow> ProjectSpec \<Rightarrow> Project \<Rightarrow> 'w state \<Rightarrow> error option \<times> 'w state"
where
  "sync_billing e f ctx spec project s =
     (case billing_NewService e of
        Some err \<Rightarrow> (Some (ErrInitBillingAPI err), s)
      | None \<Rightarrow>
          (let projNum = formatProjectNumber (ProjectNumber project)
           in case remote_call (GetBillingInfo projNum) (Projects_GetBillingInfo f ctx projNum) s of
                (Inl err, s1) \<Rightarrow> (Some (ErrGettingBillingInfo (ID spec) err), s1)
              | (Inr billingInfo, s1) \<Rightarrow>
                  (case sync_account f ctx spec s1 of
                     (Inl err, s2) \<Rightarrow> (Some err, s2)
                   | (Inr account, s2) \<Rightarrow> update_billing f ctx projNum billingInfo account s2)))"

text \<open>
  The catalog of \<^verbatim>\<open>sync\<close>: a map from the name of each listed service to its entry;
  a later service of the same name replaces an earlier one.
\<close>

record api =
  api_Name :: string
  api_Title :: string
  api_Summary :: string
  api_Enabled :: bool

fun sync_catalog :: "Service list \<Rightarrow> (string \<rightharpoonup> api) \<Rightarrow> error + (string \<rightharpoonup> api)" where
  "sync_catalog [] apis = Inr apis"
| "sync_catalog (s # services) apis =
     (case Config s of
        None \<Rightarrow> Inl NilDereference
      | Some c \<Rightarrow>
          sync_catalog services
            (apis(config_Name c \<mapsto>
               \<lparr>api_Name = config_Name c, api_Title = config_Title c,
                api_Summary = (case Documentation c of None \<Rightarrow> [] | Some summary \<Rightarrow> summary),
                api_Enabled = (State s = ''ENABLED'')\<rparr>)))"

text \<open>
  The list to enable: the requested names, rewritten, that the catalog holds as not
  enabled; a name that the catalog does not hold ends the run.
\<close>

fun sync_toEnable :: "(string \<rightharpoonup> api) \<Rightarrow> string list \<Rightarrow> string list \<Rightarrow> error + string list"
where
  "sync_toEnable apis [] toEnable = Inr toEnable"
| "sync_toEnable apis (requestedAPI # rest) toEnable =
     (case apis (normalizeAPI requestedAPI) of
        None \<Rightarrow> Inl (NoSuchAPI (normalizeAPI requestedAPI))
      | Some info \<Rightarrow>
          sync_toEnable apis rest
            (if \<not> api_Enabled info then toEnable @ [normalizeAPI requestedAPI]
             else toEnable))"

definition sync_apis ::
  "env \<Rightarrow> 'w facade \<Rightarrow> context \<Rightarrow> ProjectSpec \<Rightarrow> Project \<Rightarrow> 'w state
     \<Rightarrow> (error option \<times> 'w state) option"
where
  "sync_apis e f ctx spec project s =
     (case su_NewService e of
        Some err \<Rightarrow> Some (Some (ErrInitServiceUsage err), s)
      | None \<Rightarrow>
          (let projNum = formatProjectNumber (ProjectNumber project)
           in case remote_call (ServicesList projNum) (Services_List f projNum) s of
                (Inl err, s1) \<Rightarrow> Some (Some (ErrListingServices (ProjectId project) err), s1)
              | (Inr services, s1) \<Rightarrow>
                  (case sync_catalog services Map.empty of
                     Inl err \<Rightarrow> Some (Some err, s1)
                   | Inr apis \<Rightarrow>
                       (case sync_toEnable apis (APIs spec) [] of
                          Inl err \<Rightarrow> Some (Some err, s1)
                        | Inr toEnable \<Rightarrow> batch_enable f ctx projNum toEnable s1))))"

definition sync ::
  "env \<Rightarrow> 'w facade \<Rightarrow> context \<Rightarrow> 'w state \<Rightarrow> (error option \<times> 'w state) option" where
  "sync e f ctx s =
     (case readProjectSpec e of
        Inl err \<Rightarrow> Some (Some err, s)
      | Inr spec \<Rightarrow>
     (case crm_NewService e of
        Some err \<Rightarrow> Some (Some err, s)
      | None \<Rightarrow>
     (case sync_project e f ctx spec s of
        None \<Rightarrow> None
      | Some (Inl err, s1) \<Rightarrow> Some (Some err, s1)
      | Some (Inr project, s1) \<Rightarrow>
     (case sync_billing e f ctx spec project s1 of
        (Some err, s2) \<Rightarrow> Some (Some err, s2)
      | (None, s2) \<Rightarrow> sync_apis e f ctx spec project s2))))"

section \<open>The catalog cache\<close>

text \<open>
  The operating system, the JSON library and the paginated listing are parameters:
  \<^verbatim>\<open>os.UserCacheDir\<close>, \<^verbatim>\<open>os.MkdirAll\<close>, \<^verbatim>\<open>os.ReadFile\<close>, \<^verbatim>\<open>os.WriteFile\<close>,
  \<^verbatim>\<open>filepath.Join\<close>, \<^verbatim>\<open>json.Unmarshal\<close>, \<^verbatim>\<open>json.Marshal\<close>, the pages of
  \<^verbatim>\<open>Services.List(...).Pages\<close>, and \<^verbatim>\<open>sort.Slice\<close> with the comparison of names. The
  listing is a slice of pointers, so a decoded entry may be nil.
\<close>

record 'w cache_env =
  UserCacheDir :: "error + string"
  MkdirAll :: "string \<Rightarrow> 'w \<Rightarrow> error option \<times> 'w"
  ReadFile :: "string \<Rightarrow> 'w \<Rightarrow> (error + string) \<times> 'w"
  WriteFile :: "string \<Rightarrow> string \<Rightarrow> 'w \<Rightarrow> error option \<times> 'w"
  Join :: "string list \<Rightarrow> string"
  Unmarshal :: "string \<Rightarrow> error + api option list"
  Marshal :: "api option list \<Rightarrow> error + string"
  Services_List_Pages :: "context \<Rightarrow> string \<Rightarrow> 'w \<Rightarrow> (error + Service list list) \<times> 'w"
  sort_Slice :: "api option list \<Rightarrow> api option list"

text \<open>An operation on the local machine: it changes the world and is not a remote call.\<close>

definition local_op :: "('w \<Rightarrow> 'r \<times> 'w) \<Rightarrow> 'w state \<Rightarrow> 'r \<times> 'w state" where
  "local_op op s = (case op (world s) of (r, w') \<Rightarrow> (r, s\<lparr>world := w'\<rparr>))"

definition cacheDir :: "'w cache_env \<Rightarrow> int \<Rightarrow> 'w state \<Rightarrow> (error + string) \<times> 'w state" where
  "cacheDir c projectNumber s =
     (case UserCacheDir c of
        Inl err \<Rightarrow> (Inl (ErrGettingUserCacheDir err), s)
      | Inr dir \<Rightarrow>
          (let path = Join c [dir, ''gproj'', decimal projectNumber]
           in case local_op (MkdirAll c path) s of
                (Some err, s1) \<Rightarrow> (Inl (ErrCreatingCacheDir err), s1)
              | (None, s1) \<Rightarrow> (Inr path, s1)))"

text \<open>The text before the first newline, or the whole text if it has none.\<close>

definition firstLine :: "string \<Rightarrow> string" where
  "firstLine s = takeWhile (\<lambda>c. c \<noteq> CHR 0x0A) s"

text \<open>The entries of the fetched services, in order; a service without configuration panics.\<close>

fun listed_apis :: "Service list \<Rightarrow> api option list \<Rightarrow> error + api option list" where
  "listed_apis [] apis = Inr apis"
| "listed_apis (s # services) apis =
     (case Config s of
        None \<Rightarrow> Inl NilDereference
      | Some c \<Rightarrow>
          listed_apis services
            (apis @
              [Some \<lparr>api_Name = config_Name c, api_Title = config_Title c,
                     api_Summary =
                       (case Documentation c of None \<Rightarrow> [] | Some summary \<Rightarrow> firstLine summary),
                     api_Enabled = (State s = ''ENABLED'')\<rparr>]))"

definition pullAvailableAPIs ::
  "env \<Rightarrow> 'w cache_env \<Rightarrow> context \<Rightarrow> int \<Rightarrow> 'w state \<Rightarrow> (error + api option list) \<times> 'w state"
where
  "pullAvailableAPIs e c ctx projectNumber s =
     (case su_NewService e of
        Some err \<Rightarrow> (Inl (ErrInitServiceUsage err), s)
      | None \<Rightarrow>
          (let projNum = formatProjectNumber projectNumber
           in case remote_call (ServicesListPages projNum) (Services_List_Pages c ctx projNum) s of
                (Inl err, s1) \<Rightarrow> (Inl (ErrGettingListOfAPIs err), s1)
              | (Inr pages, s1) \<Rightarrow>
                  (case listed_apis (concat pages) [] of
                     Inl err \<Rightarrow> (Inl err, s1)
                   | Inr apis \<Rightarrow> (Inr (sort_Slice c apis), s1))))"

definition pullAndStoreAvailableAPIs ::
  "env \<Rightarrow> 'w cache_env \<Rightarrow> context \<Rightarrow> int \<Rightarrow> string \<Rightarrow> 'w state
     \<Rightarrow> (error + api option list) \<times> 'w state"
where
  "pullAndStoreAvailableAPIs e c ctx projectNumber path s =
     (case pullAvailableAPIs e c ctx projectNumber s of
        (Inl err, s1) \<Rightarrow> (Inl err, s1)
      | (Inr apis, s1) \<Rightarrow>
          (case Marshal c apis of
             Inl err \<Rightarrow> (Inl (ErrMarshalling err), s1)
           | Inr buf \<Rightarrow>
               (case local_op (WriteFile c path buf) s1 of
                  (Some err, s2) \<Rightarrow> (Inl (ErrWritingCache err), s2)
                | (None, s2) \<Rightarrow> (Inr apis, s2))))"

definition availableAPIs ::
  "env \<Rightarrow> 'w cache_env \<Rightarrow> context \<Rightarrow> int \<Rightarrow> 'w state \<Rightarrow> (error + api option list) \<times> 'w state"
where
  "availableAPIs e c ctx projectNumber s =
     (case cacheDir c projectNumber s of
        (Inl err, s1) \<Rightarrow> pullAvailableAPIs e c ctx projectNumber s1
      | (Inr dir, s1) \<Rightarrow>
          (let cachePath = Join c [dir, ''available-apis.json'']
           in case local_op (ReadFile c cachePath) s1 of
                (Inl err, s2) \<Rightarrow> pullAndStoreAvailableAPIs e c ctx projectNumber cachePath s2
              | (Inr cached, s2) \<Rightarrow>
                  (case Unmarshal c cached of
                     Inl err \<Rightarrow> (Inl (ErrDecodingCache cachePath err), s2)
                   | Inr apis \<Rightarrow> (Inr apis, s2))))"

section \<open>Notions used to state the properties\<close>

text \<open>A name that the catalog of \<^verbatim>\<open>sync\<close> holds as not enabled.\<close>

definition wanted :: "(string \<rightharpoonup> api) \<Rightarrow> string \<Rightarrow> bool" where
  "wanted apis n = (case apis n of None \<Rightarrow> False | Some info \<Rightarrow> \<not> api_Enabled info)"

text \<open>
  The world after \<open>i\<close> turns of a polling loop that waits for the tick and then fetches.
\<close>

definition poll_world :: "('w \<Rightarrow> 'w) \<Rightarrow> ('w \<Rightarrow> 'r \<times> 'w) \<Rightarrow> nat \<Rightarrow> 'w \<Rightarrow> 'w" where
  "poll_world tick fetch i w = ((\<lambda>w. snd (fetch (tick w))) ^^ i) w"

text \<open>An answer of a fetch that keeps the loop going: an operation without error, not done.\<close>

definition pending :: "error + Operation \<Rightarrow> bool" where
  "pending r = (case r of Inl err \<Rightarrow> False | Inr op \<Rightarrow> op_Error op = None \<and> \<not> op_Done op)"


text \<open>
  The number of characters of a UTF-8 text: the bytes that are not continuation bytes
  (\<open>0x80\<close> to \<open>0xBF\<close>).
\<close>

definition characters :: "string \<Rightarrow> nat" where
  "characters s = length (filter (\<lambda>c. \<not> (128 \<le> (of_char c :: nat) \<and> (of_char c :: nat) < 192)) s)"

section \<open>Concrete inputs\<close>

text \<open>
  Specifications, remote backends and local machines on which the definitions above are
  run.
\<close>

definition spec_compute :: ProjectSpec where
  "spec_compute = \<lparr>Name = ''demo'', ID = ''demo-1'', Labels = None,
     APIs = [''compute'', ''run.googleapis.com''], Billing = ''acct''\<rparr>"

definition catalog_compute :: "string \<rightharpoonup> api" where
  "catalog_compute = [''compute.googleapis.com'' \<mapsto>
      \<lparr>api_Name = ''compute.googleapis.com'', api_Title = ''Compute'', api_Summary = [],
       api_Enabled = False\<rparr>,
    ''run.googleapis.com'' \<mapsto>
      \<lparr>api_Name = ''run.googleapis.com'', api_Title = ''Run'', api_Summary = [],
       api_Enabled = True\<rparr>]"

text \<open>
  A small remote backend for the concrete runs: whether the project exists, the billing
  account linked to it, and the services enabled on it. Every operation completes at once.
\<close>

record remote =
  r_exists :: bool
  r_account :: string
  r_enabled :: "string list"

definition done_op :: Operation where
  "done_op = \<lparr>op_Name = ''operations/1'', op_Error = None, op_Done = True\<rparr>"

definition the_project :: "string \<Rightarrow> Project" where
  "the_project pid = \<lparr>project_Name = ''demo'', ProjectId = pid, project_Labels = [], ProjectNumber = 7\<rparr>"

definition known_services :: "string list" where
  "known_services = [''cloudbilling.googleapis.com'', ''compute.googleapis.com'', ''run.googleapis.com'']"

definition service_of :: "remote \<Rightarrow> string \<Rightarrow> Service" where
  "service_of w n =
     \<lparr>Config = Some \<lparr>config_Name = n, config_Title = n, Documentation = None\<rparr>,
      State = (if n \<in> set (r_enabled w) then ''ENABLED'' else ''DISABLED'')\<rparr>"

definition backend :: "BillingAccount list \<Rightarrow> bool \<Rightarrow> remote facade" where
  "backend accounts active =
     \<lparr>Projects_Get = (\<lambda>ctx pid w.
        (if r_exists w then Inr (the_project pid) else Inl (GoogleApiError 403 ''forbidden''), w)),
      Projects_Create = (\<lambda>ctx p w. (Inr done_op, w\<lparr>r_exists := True\<rparr>)),
      crm_Operations_Get = (\<lambda>ctx name w. (Inr done_op, w)),
      Projects_GetBillingInfo = (\<lambda>ctx pn w.
        (Inr \<lparr>BillingAccountName = r_account w, BillingEnabled = (r_account w \<noteq> [])\<rparr>, w)),
      BillingAccounts_List = (\<lambda>ctx w. (Inr accounts, w)),
      Projects_UpdateBillingInfo = (\<lambda>ctx pn a w.
        (Inr \<lparr>BillingAccountName = a, BillingEnabled = active\<rparr>, w\<lparr>r_account := a\<rparr>)),
      Services_List = (\<lambda>pn w. (Inr (map (service_of w) known_services), w)),
      Services_BatchEnable = (\<lambda>ctx pn ids w. (Inr done_op, w\<lparr>r_enabled := r_enabled w @ ids\<rparr>)),
      su_Operations_Get = (\<lambda>ctx name w. (Inr done_op, w)),
      ticker = (\<lambda>w. w)\<rparr>"

definition env_of :: "ProjectSpec \<Rightarrow> env" where
  "env_of spec = \<lparr>FindDefaultCredentials = None, readProjectSpec = Inr spec,
     crm_NewService = None, su_NewService = None, billing_NewService = None,
     time_Now = ''2021-03-04 05:06:07''\<rparr>"

definition empty_heap :: heap where
  "empty_heap = \<lparr>cells = (\<lambda>a. []), nxt = 0\<rparr>"

definition start :: "remote \<Rightarrow> remote state" where
  "start w = \<lparr>world = w, heap = empty_heap, calls = []\<rparr>"

definition acct :: "string \<Rightarrow> bool \<Rightarrow> BillingAccount" where
  "acct n b = \<lparr>account_Name = n, DisplayName = ''Display'', Open = b\<rparr>"

definition spec_auto :: ProjectSpec where
  "spec_auto = \<lparr>Name = ''demo'', ID = ''demo-1'', Labels = None, APIs = [], Billing = ''enable''\<rparr>"

definition unlinked :: remote where
  "unlinked = \<lparr>r_exists = True, r_account = [], r_enabled = []\<rparr>"

definition spec_literal :: ProjectSpec where
  "spec_literal = \<lparr>Name = ''demo'', ID = ''demo-1'', Labels = None, APIs = [], Billing = ''A''\<rparr>"

definition spec_converged :: ProjectSpec where
  "spec_converged = \<lparr>Name = ''demo'', ID = ''demo-1'', Labels = None,
     APIs = [''compute''], Billing = ''A''\<rparr>"

definition converged :: remote where
  "converged = \<lparr>r_exists = True, r_account = ''A'',
     r_enabled = [''cloudbilling.googleapis.com'', ''compute.googleapis.com'']\<rparr>"

definition spec_many :: ProjectSpec where
  "spec_many = \<lparr>Name = ''demo'', ID = ''demo-1'', Labels = None,
     APIs = replicate 21 ''compute'', Billing = ''A''\<rparr>"

definition absent :: remote where
  "absent = \<lparr>r_exists = False, r_account = [], r_enabled = []\<rparr>"

definition spec_short :: ProjectSpec where
  "spec_short = \<lparr>Name = ''abc'', ID = ''demo-1'', Labels = None, APIs = [], Billing = ''A''\<rparr>"






text \<open>
  A local machine whose cache file for every project holds the given text; the decoder
  accepts only the empty listing.
\<close>

definition cache_with :: "string \<Rightarrow> unit cache_env" where
  "cache_with content =
     \<lparr>UserCacheDir = Inr ''/home/u/.cache'',
      MkdirAll = (\<lambda>path w. (None, w)),
      ReadFile = (\<lambda>path w. (Inr content, w)),
      WriteFile = (\<lambda>path buf w. (None, w)),
      Join = (\<lambda>parts. foldr (\<lambda>p rest. if rest = [] then p else p @ ''/'' @ rest) parts []),
      Unmarshal = (\<lambda>buf. if buf = ''[]'' then Inr [] else Inl (OtherError ''unexpected end of JSON input'')),
      Marshal = (\<lambda>apis. Inr ''[]''),
      Services_List_Pages = (\<lambda>ctx pn w. (Inr [], w)),
      sort_Slice = (\<lambda>apis. apis)\<rparr>"

text \<open>A name of three characters of two bytes each, the UTF-8 text of three umlauts.\<close>

definition spec_umlauts :: ProjectSpec where
  "spec_umlauts = \<lparr>Name = [CHR 0xC3, CHR 0xA4, CHR 0xC3, CHR 0xB6, CHR 0xC3, CHR 0xBC],
     ID = ''demo-1'', Labels = None, APIs = [], Billing = ''A''\<rparr>"

section \<open>Properties\<close>

subsection \<open>The lists that the loops build\<close>

lemma fold_snoc_map: "fold (\<lambda>x acc. acc @ [g x]) xs acc = acc @ map g xs"
  by (induction xs arbitrary: acc) simp_all

lemma apply_toEnable_eq: "apply_toEnable spec = map normalizeAPI (APIs spec)"
  by (simp add: apply_toEnable_def fold_snoc_map)

lemma fold_snoc_filter:
  "fold (\<lambda>a acc. if P a then acc @ [a] else acc) xs acc = acc @ filter P xs"
  by (induction xs arbitrary: acc) simp_all

lemma openAccounts_eq: "openAccounts accounts = filter Open accounts"
  by (simp add: openAccounts_def fold_snoc_filter)

lemma sync_toEnable_Inr:
  "sync_toEnable apis rs acc = Inr l \<Longrightarrow>
     l = acc @ filter (wanted apis) (map normalizeAPI rs)"
proof (induction rs arbitrary: acc)
  case Nil
  then show ?case by simp
next
  case (Cons r rs)
  then obtain info where i: "apis (normalizeAPI r) = Some info"
    by (auto split: option.splits)
  show ?case
  proof (cases "api_Enabled info")
    case True
    with Cons i show ?thesis by (simp add: wanted_def)
  next
    case False
    with Cons.prems i have "sync_toEnable apis rs (acc @ [normalizeAPI r]) = Inr l" by simp
    from Cons.IH [OF this] False i show ?thesis by (simp add: wanted_def)
  qed
qed

lemma sync_toEnable_Inl:
  "sync_toEnable apis rs acc = Inl err \<Longrightarrow>
     \<exists>r\<in>set rs. err = NoSuchAPI (normalizeAPI r) \<and> apis (normalizeAPI r) = None"
  by (induction rs arbitrary: acc) (auto split: option.splits if_splits)

lemma sync_toEnable_total:
  "\<forall>r\<in>set rs. apis (normalizeAPI r) \<noteq> None \<Longrightarrow>
     sync_toEnable apis rs acc = Inr (acc @ filter (wanted apis) (map normalizeAPI rs))"
  by (induction rs arbitrary: acc) (auto simp: wanted_def split: option.splits if_splits)

subsection \<open>Normalization of the requested names\<close>

text \<open>
  C10. Normalizing is idempotent: a normalized name contains a dot, so normalizing it
  again leaves it as it is.
\<close>

theorem normalizeAPI_idempotent:
  "normalizeAPI (normalizeAPI n) = normalizeAPI n \<and> CHR ''.'' \<in> set (normalizeAPI n)"
  by (simp add: normalizeAPI_def)

text \<open>
  C5. A requested name without a dot gets the suffix \<^verbatim>\<open>.googleapis.com\<close>, a name with
  a dot stays; \<^verbatim>\<open>compute\<close> becomes \<^verbatim>\<open>compute.googleapis.com\<close>. The list that
  \<^verbatim>\<open>apply\<close> submits holds the rewritten names, and \<^verbatim>\<open>sync\<close> looks the rewritten
  names up in the catalog: its list holds the rewritten names that the catalog has as not
  enabled, and the name it reports as unknown is a rewritten one.
\<close>

theorem normalizeAPI_rewrites:
  "(CHR ''.'' \<notin> set n \<longrightarrow> normalizeAPI n = n @ ''.googleapis.com'')
   \<and> (CHR ''.'' \<in> set n \<longrightarrow> normalizeAPI n = n)
   \<and> normalizeAPI ''compute'' = ''compute.googleapis.com''
   \<and> apply_toEnable spec = map normalizeAPI (APIs spec)
   \<and> (\<forall>l. sync_toEnable apis (APIs spec) [] = Inr l \<longrightarrow>
          l = filter (wanted apis) (map normalizeAPI (APIs spec)))
   \<and> (\<forall>err. sync_toEnable apis (APIs spec) [] = Inl err \<longrightarrow>
          (\<exists>r\<in>set (APIs spec). err = NoSuchAPI (normalizeAPI r) \<and> apis (normalizeAPI r) = None))"
proof (intro conjI allI impI)
  show "apply_toEnable spec = map normalizeAPI (APIs spec)" by (rule apply_toEnable_eq)
next
  fix l assume "sync_toEnable apis (APIs spec) [] = Inr l"
  from sync_toEnable_Inr [OF this] show "l = filter (wanted apis) (map normalizeAPI (APIs spec))"
    by simp
next
  fix err assume "sync_toEnable apis (APIs spec) [] = Inl err"
  then show "\<exists>r\<in>set (APIs spec). err = NoSuchAPI (normalizeAPI r) \<and> apis (normalizeAPI r) = None"
    by (rule sync_toEnable_Inl)
qed (simp_all add: normalizeAPI_def)

theorem normalizeAPI_rewrites_witness:
  "CHR ''.'' \<notin> set ''compute'' \<and> CHR ''.'' \<in> set ''run.googleapis.com''
   \<and> normalizeAPI ''run.googleapis.com'' = ''run.googleapis.com''
   \<and> apply_toEnable spec_compute = [''compute.googleapis.com'', ''run.googleapis.com'']
   \<and> sync_toEnable catalog_compute (APIs spec_compute) [] = Inr [''compute.googleapis.com'']
   \<and> sync_toEnable Map.empty (APIs spec_compute) [] = Inl (NoSuchAPI ''compute.googleapis.com'')"
  using normalizeAPI_rewrites [of "''run.googleapis.com''" spec_compute catalog_compute]
  by (simp add: spec_compute_def catalog_compute_def normalizeAPI_def wanted_def)

subsection \<open>The billing phase\<close>

lemma remote_call_eq:
  "op (world s) = (r, w') \<Longrightarrow> remote_call c op s = (r, s\<lparr>world := w', calls := calls s @ [c]\<rparr>)"
  by (simp add: remote_call_def)

lemma lookup_account_one:
  assumes "BillingAccounts_List f ctx (world s) = (Inr accounts, w')"
    and "filter Open accounts = [a]"
  shows "lookup_account f ctx s =
           (Inr (account_Name a), s\<lparr>world := w', calls := calls s @ [BillingAccountsList]\<rparr>)"
  using assms by (simp add: lookup_account_def remote_call_eq openAccounts_eq)

lemma lookup_account_ambiguous:
  assumes "BillingAccounts_List f ctx (world s) = (Inr accounts, w')"
    and "length (filter Open accounts) \<noteq> 1"
  shows "lookup_account f ctx s =
           (Inl (NoBillingAccount (length accounts) (length (filter Open accounts))),
            s\<lparr>world := w', calls := calls s @ [BillingAccountsList]\<rparr>)"
  using assms by (simp add: lookup_account_def remote_call_eq openAccounts_eq)

text \<open>
  C3. With the auto-select sentinel as billing reference (\<^verbatim>\<open>"enable"\<close> for
  \<^verbatim>\<open>apply\<close>, the empty string for \<^verbatim>\<open>sync\<close>) the billing phase lists the
  billing accounts and keeps the open ones. With exactly one open account it goes on to
  the update step with that account's name; otherwise it ends with the error that holds
  the number of accounts and the number of open accounts.
\<close>

theorem auto_select_billing_account:
  assumes svc: "billing_NewService e = None"
    and info: "Projects_GetBillingInfo f ctx (formatProjectNumber (ProjectNumber project)) (world s)
                 = (Inr billingInfo, w1)"
    and list: "BillingAccounts_List f ctx w1 = (Inr accounts, w2)"
  shows "(Billing spec = ''enable'' \<and> filter Open accounts = [a] \<longrightarrow>
            apply_billing e f ctx spec project s =
              update_billing f ctx (formatProjectNumber (ProjectNumber project)) billingInfo
                (account_Name a)
                (s\<lparr>world := w2,
                   calls := calls s @ [GetBillingInfo (formatProjectNumber (ProjectNumber project)),
                                       BillingAccountsList]\<rparr>))
       \<and> (Billing spec = ''enable'' \<and> length (filter Open accounts) \<noteq> 1 \<longrightarrow>
            apply_billing e f ctx spec project s =
              (Some (NoBillingAccount (length accounts) (length (filter Open accounts))),
               s\<lparr>world := w2,
                  calls := calls s @ [GetBillingInfo (formatProjectNumber (ProjectNumber project)),
                                      BillingAccountsList]\<rparr>))
       \<and> (Billing spec = [] \<and> filter Open accounts = [a] \<longrightarrow>
            sync_billing e f ctx spec project s =
              update_billing f ctx (formatProjectNumber (ProjectNumber project)) billingInfo
                (account_Name a)
                (s\<lparr>world := w2,
                   calls := calls s @ [GetBillingInfo (formatProjectNumber (ProjectNumber project)),
                                       BillingAccountsList]\<rparr>))
       \<and> (Billing spec = [] \<and> length (filter Open accounts) \<noteq> 1 \<longrightarrow>
            sync_billing e f ctx spec project s =
              (Some (NoBillingAccount (length accounts) (length (filter Open accounts))),
               s\<lparr>world := w2,
                  calls := calls s @ [GetBillingInfo (formatProjectNumber (ProjectNumber project)),
                                      BillingAccountsList]\<rparr>))"
proof -
  let ?pn = "formatProjectNumber (ProjectNumber project)"
  let ?s1 = "s\<lparr>world := w1, calls := calls s @ [GetBillingInfo ?pn]\<rparr>"
  have get: "remote_call (GetBillingInfo ?pn) (Projects_GetBillingInfo f ctx ?pn) s
               = (Inr billingInfo, ?s1)"
    using info by (rule remote_call_eq)
  have list': "BillingAccounts_List f ctx (world ?s1) = (Inr accounts, w2)"
    using list by simp
  have one: "filter Open accounts = [a] \<Longrightarrow> lookup_account f ctx ?s1 =
      (Inr (account_Name a), s\<lparr>world := w2, calls := calls s @ [GetBillingInfo ?pn, BillingAccountsList]\<rparr>)"
    using lookup_account_one [OF list'] by simp
  have amb: "length (filter Open accounts) \<noteq> 1 \<Longrightarrow> lookup_account f ctx ?s1 =
      (Inl (NoBillingAccount (length accounts) (length (filter Open accounts))),
       s\<lparr>world := w2, calls := calls s @ [GetBillingInfo ?pn, BillingAccountsList]\<rparr>)"
    using lookup_account_ambiguous [OF list'] by simp
  show ?thesis
    using svc get one amb
    by (simp add: apply_billing_def sync_billing_def apply_account_def sync_account_def Let_def)
qed

lemma projects_7: "formatProjectNumber 7 = ''projects/7''"
  by (simp add: formatProjectNumber_def decimal_def digits.simps)

lemma update_billing_same:
  "BillingAccountName billingInfo = account \<Longrightarrow>
     update_billing f ctx pn billingInfo account s = (None, s)"
  by (simp add: update_billing_def)

lemma update_billing_failed:
  "BillingAccountName billingInfo \<noteq> account \<Longrightarrow>
   Projects_UpdateBillingInfo f ctx pn account (world s) = (Inl err, w') \<Longrightarrow>
     update_billing f ctx pn billingInfo account s =
       (Some (ErrUpdatingBillingInfo err),
        s\<lparr>world := w', calls := calls s @ [UpdateBillingInfo pn account]\<rparr>)"
  by (simp add: update_billing_def remote_call_eq)

lemma update_billing_answered:
  "BillingAccountName billingInfo \<noteq> account \<Longrightarrow>
   Projects_UpdateBillingInfo f ctx pn account (world s) = (Inr updated, w') \<Longrightarrow>
     update_billing f ctx pn billingInfo account s =
       (if BillingEnabled updated then None else Some (BillingStillNotEnabled updated),
        s\<lparr>world := w', calls := calls s @ [UpdateBillingInfo pn account]\<rparr>)"
  by (simp add: update_billing_def remote_call_eq)

theorem auto_select_billing_account_witness:
  "billing_NewService (env_of spec_auto) = None
   \<and> Projects_GetBillingInfo (backend [acct ''A'' True, acct ''B'' False] True) Background
        (formatProjectNumber (ProjectNumber (the_project ''demo-1''))) (world (start unlinked))
       = (Inr \<lparr>BillingAccountName = [], BillingEnabled = False\<rparr>, unlinked)
   \<and> BillingAccounts_List (backend [acct ''A'' True, acct ''B'' False] True) Background unlinked
       = (Inr [acct ''A'' True, acct ''B'' False], unlinked)
   \<and> Billing spec_auto = ''enable''
   \<and> filter Open [acct ''A'' True, acct ''B'' False] = [acct ''A'' True]
   \<and> apply_billing (env_of spec_auto) (backend [acct ''A'' True, acct ''B'' False] True)
        Background spec_auto (the_project ''demo-1'') (start unlinked)
       = (None, \<lparr>world = unlinked\<lparr>r_account := ''A''\<rparr>, heap = empty_heap,
                 calls = [GetBillingInfo ''projects/7'', BillingAccountsList,
                          UpdateBillingInfo ''projects/7'' ''A'']\<rparr>)"
  using auto_select_billing_account [of "env_of spec_auto"
      "backend [acct ''A'' True, acct ''B'' False] True" Background "the_project ''demo-1''"
      "start unlinked" "\<lparr>BillingAccountName = [], BillingEnabled = False\<rparr>" unlinked
      "[acct ''A'' True, acct ''B'' False]" unlinked spec_auto "acct ''A'' True"]
  by (simp add: env_of_def backend_def acct_def the_project_def start_def unlinked_def
      spec_auto_def projects_7 update_billing_def remote_call_def)

text \<open>
  C4. Once the account is resolved, the billing phase compares it with the current link.
  If they are equal it issues no update. If they differ it issues one update; a failed
  call gives the error of the call, an answer with \<^verbatim>\<open>BillingEnabled\<close> false gives
  another error, which holds the answer, and an answer with billing enabled ends the phase
  without error.
\<close>

theorem billing_update_checked:
  assumes svc: "billing_NewService e = None"
    and info: "Projects_GetBillingInfo f ctx (formatProjectNumber (ProjectNumber project)) (world s)
                 = (Inr billingInfo, w1)"
    and upd: "Projects_UpdateBillingInfo f ctx (formatProjectNumber (ProjectNumber project)) account
                (world s2) = (answer, w3)"
  shows "(apply_account f ctx spec
            (s\<lparr>world := w1,
               calls := calls s @ [GetBillingInfo (formatProjectNumber (ProjectNumber project))]\<rparr>)
            = (Inr account, s2) \<longrightarrow>
          apply_billing e f ctx spec project s =
            (if BillingAccountName billingInfo = account then (None, s2)
             else
               (case answer of
                  Inl err \<Rightarrow> Some (ErrUpdatingBillingInfo err)
                | Inr updated \<Rightarrow>
                    if BillingEnabled updated then None
                    else Some (BillingStillNotEnabled updated),
                s2\<lparr>world := w3,
                    calls := calls s2 @
                      [UpdateBillingInfo (formatProjectNumber (ProjectNumber project)) account]\<rparr>)))
       \<and> (sync_account f ctx spec
            (s\<lparr>world := w1,
               calls := calls s @ [GetBillingInfo (formatProjectNumber (ProjectNumber project))]\<rparr>)
            = (Inr account, s2) \<longrightarrow>
          sync_billing e f ctx spec project s =
            (if BillingAccountName billingInfo = account then (None, s2)
             else
               (case answer of
                  Inl err \<Rightarrow> Some (ErrUpdatingBillingInfo err)
                | Inr updated \<Rightarrow>
                    if BillingEnabled updated then None
                    else Some (BillingStillNotEnabled updated),
                s2\<lparr>world := w3,
                    calls := calls s2 @
                      [UpdateBillingInfo (formatProjectNumber (ProjectNumber project)) account]\<rparr>)))
       \<and> (\<forall>err updated. BillingStillNotEnabled updated \<noteq> ErrUpdatingBillingInfo err)"
proof -
  let ?pn = "formatProjectNumber (ProjectNumber project)"
  let ?s1 = "s\<lparr>world := w1, calls := calls s @ [GetBillingInfo ?pn]\<rparr>"
  have get: "remote_call (GetBillingInfo ?pn) (Projects_GetBillingInfo f ctx ?pn) s
               = (Inr billingInfo, ?s1)"
    using info by (rule remote_call_eq)
  have u: "update_billing f ctx ?pn billingInfo account s2 =
      (if BillingAccountName billingInfo = account then (None, s2)
       else
         (case answer of
            Inl err \<Rightarrow> Some (ErrUpdatingBillingInfo err)
          | Inr updated \<Rightarrow>
              if BillingEnabled updated then None else Some (BillingStillNotEnabled updated),
          s2\<lparr>world := w3, calls := calls s2 @ [UpdateBillingInfo ?pn account]\<rparr>))"
    using upd by (cases answer) (simp_all add: update_billing_def remote_call_def)
  show ?thesis
    using svc get u by (simp add: apply_billing_def sync_billing_def Let_def)
qed

theorem billing_update_checked_witness:
  "billing_NewService (env_of spec_literal) = None
   \<and> Projects_GetBillingInfo (backend [] False) Background
        (formatProjectNumber (ProjectNumber (the_project ''demo-1''))) (world (start unlinked))
       = (Inr \<lparr>BillingAccountName = [], BillingEnabled = False\<rparr>, unlinked)
   \<and> Projects_UpdateBillingInfo (backend [] False) Background
        (formatProjectNumber (ProjectNumber (the_project ''demo-1''))) ''A''
        (world (start unlinked\<lparr>calls := [GetBillingInfo ''projects/7'']\<rparr>))
       = (Inr \<lparr>BillingAccountName = ''A'', BillingEnabled = False\<rparr>, unlinked\<lparr>r_account := ''A''\<rparr>)
   \<and> apply_account (backend [] False) Background spec_literal
        (start unlinked\<lparr>calls := [GetBillingInfo ''projects/7'']\<rparr>)
       = (Inr ''A'', start unlinked\<lparr>calls := [GetBillingInfo ''projects/7'']\<rparr>)
   \<and> sync_account (backend [] False) Background spec_literal
        (start unlinked\<lparr>calls := [GetBillingInfo ''projects/7'']\<rparr>)
       = (Inr ''A'', start unlinked\<lparr>calls := [GetBillingInfo ''projects/7'']\<rparr>)
   \<and> apply_billing (env_of spec_literal) (backend [] False) Background spec_literal
        (the_project ''demo-1'') (start unlinked)
       = (Some (BillingStillNotEnabled \<lparr>BillingAccountName = ''A'', BillingEnabled = False\<rparr>),
          \<lparr>world = unlinked\<lparr>r_account := ''A''\<rparr>, heap = empty_heap,
           calls = [GetBillingInfo ''projects/7'', UpdateBillingInfo ''projects/7'' ''A'']\<rparr>)
   \<and> sync_billing (env_of spec_literal) (backend [] False) Background spec_literal
        (the_project ''demo-1'') (start unlinked)
       = (Some (BillingStillNotEnabled \<lparr>BillingAccountName = ''A'', BillingEnabled = False\<rparr>),
          \<lparr>world = unlinked\<lparr>r_account := ''A''\<rparr>, heap = empty_heap,
           calls = [GetBillingInfo ''projects/7'', UpdateBillingInfo ''projects/7'' ''A'']\<rparr>)"
  using billing_update_checked [of "env_of spec_literal" "backend [] False" Background
      "the_project ''demo-1''" "start unlinked"
      "\<lparr>BillingAccountName = [], BillingEnabled = False\<rparr>" unlinked "''A''"
      "start unlinked\<lparr>calls := [GetBillingInfo ''projects/7'']\<rparr>"
      "Inr \<lparr>BillingAccountName = ''A'', BillingEnabled = False\<rparr>"
      "unlinked\<lparr>r_account := ''A''\<rparr>" spec_literal]
  by (simp add: env_of_def backend_def the_project_def start_def unlinked_def
      spec_literal_def projects_7 apply_account_def sync_account_def)

subsection \<open>Runs\<close>

lemma account_calls:
  "lookup_account f ctx s = (r, s') \<Longrightarrow> filter mutating (calls s') = filter mutating (calls s)"
  by (auto simp: lookup_account_def remote_call_def split: prod.splits sum.splits if_splits)

lemma apply_account_calls:
  "apply_account f ctx spec s = (r, s') \<Longrightarrow> filter mutating (calls s') = filter mutating (calls s)"
  by (auto simp: apply_account_def dest: account_calls split: if_splits)

lemma sync_account_calls:
  "sync_account f ctx spec s = (r, s') \<Longrightarrow> filter mutating (calls s') = filter mutating (calls s)"
  by (auto simp: sync_account_def dest: account_calls split: if_splits)

lemma batch_enable_limit:
  "20 < length toEnable \<Longrightarrow> batch_enable f ctx pn toEnable s = Some (Some TooManyAPIs, s)"
  by (auto simp: batch_enable_def)

lemma batch_enable_nothing: "batch_enable f ctx pn [] s = Some (None, s)"
  by (simp add: batch_enable_def)

lemma apply_cmd_run:
  assumes "FindDefaultCredentials e = None" "readProjectSpec e = Inr spec"
    "4 \<le> length (Name spec)" "crm_NewService e = None" "su_NewService e = None"
    "apply_project f ctx spec s = Some (Inr project, s1)"
    "apply_billing e f ctx spec project s1 = (None, s2)"
  shows "apply_cmd e f ctx s =
           batch_enable f ctx (formatProjectNumber (ProjectNumber project))
             (map normalizeAPI (APIs spec)) s2"
  using assms by (simp add: apply_cmd_def apply_toEnable_eq)

lemma sync_run:
  assumes "readProjectSpec e = Inr spec" "crm_NewService e = None"
    "sync_project e f ctx spec s = Some (Inr project, s1)"
    "sync_billing e f ctx spec project s1 = (None, s2)"
  shows "sync e f ctx s = sync_apis e f ctx spec project s2"
  using assms by (simp add: sync_def)

lemma sync_apis_listed:
  assumes "su_NewService e = None"
    "Services_List f (formatProjectNumber (ProjectNumber project)) (world s) = (Inr services, w')"
    "sync_catalog services Map.empty = Inr apis"
    "sync_toEnable apis (APIs spec) [] = Inr toEnable"
  shows "sync_apis e f ctx spec project s =
           batch_enable f ctx (formatProjectNumber (ProjectNumber project)) toEnable
             (s\<lparr>world := w',
                calls := calls s @ [ServicesList (formatProjectNumber (ProjectNumber project))]\<rparr>)"
  using assms by (simp add: sync_apis_def Let_def remote_call_eq)

lemma apply_project_exists:
  "Projects_Get f ctx (ID spec) (world s) = (Inr project, w') \<Longrightarrow>
     apply_project f ctx spec s =
       Some (Inr project, s\<lparr>world := w', calls := calls s @ [ProjectsGet (ID spec)]\<rparr>)"
  by (simp add: apply_project_def remote_call_eq)

lemma sync_project_exists:
  "Projects_Get f ctx (ID spec) (world s) = (Inr project, w') \<Longrightarrow>
     sync_project e f ctx spec s =
       Some (Inr project, s\<lparr>world := w', calls := calls s @ [ProjectsGet (ID spec)]\<rparr>)"
  by (simp add: sync_project_def remote_call_eq)

lemma billing_linked:
  assumes "billing_NewService e = None"
    "Projects_GetBillingInfo f ctx (formatProjectNumber (ProjectNumber project)) (world s)
       = (Inr billingInfo, w')"
    "BillingAccountName billingInfo = account"
  shows "apply_account f ctx spec
           (s\<lparr>world := w',
              calls := calls s @ [GetBillingInfo (formatProjectNumber (ProjectNumber project))]\<rparr>)
           = (Inr account, s2) \<Longrightarrow>
         apply_billing e f ctx spec project s = (None, s2)"
    and "sync_account f ctx spec
           (s\<lparr>world := w',
              calls := calls s @ [GetBillingInfo (formatProjectNumber (ProjectNumber project))]\<rparr>)
           = (Inr account, s2) \<Longrightarrow>
         sync_billing e f ctx spec project s = (None, s2)"
  using assms
  by (simp_all add: apply_billing_def sync_billing_def Let_def remote_call_eq update_billing_same)

lemma wanted_none:
  assumes "\<forall>r\<in>set rs. \<exists>info. apis (normalizeAPI r) = Some info \<and> api_Enabled info"
  shows "sync_toEnable apis rs [] = Inr []"
proof -
  from assms have "\<forall>r\<in>set rs. apis (normalizeAPI r) \<noteq> None" by auto
  from sync_toEnable_total [OF this, of "[]"] assms show ?thesis
    by (auto simp: wanted_def filter_empty_conv)
qed

text \<open>
  C1 (amended). On a converged project (the project exists, the resolved billing account is
  the linked one) a run creates nothing and updates no billing link. \<^verbatim>\<open>sync\<close>, when
  the catalog holds every requested name as enabled, issues no mutating call at all and
  succeeds. \<^verbatim>\<open>apply\<close> does not consult the catalog: its list to enable is every
  requested name, rewritten, so it goes on to the batch step with that list, and issues no
  batch call only when no API is requested.
\<close>

theorem converged_run:
  assumes spec: "readProjectSpec e = Inr spec"
    and crm: "crm_NewService e = None"
    and bil: "billing_NewService e = None"
    and su: "su_NewService e = None"
    and get: "Projects_Get f ctx (ID spec) (world s) = (Inr project, w1)"
    and info: "Projects_GetBillingInfo f ctx (formatProjectNumber (ProjectNumber project)) w1
                 = (Inr billingInfo, w2)"
    and same: "BillingAccountName billingInfo = account"
  shows "(sync_account f ctx spec
            (s\<lparr>world := w2,
               calls := calls s @ [ProjectsGet (ID spec),
                 GetBillingInfo (formatProjectNumber (ProjectNumber project))]\<rparr>)
            = (Inr account, s3)
          \<and> Services_List f (formatProjectNumber (ProjectNumber project)) (world s3)
              = (Inr services, w4)
          \<and> sync_catalog services Map.empty = Inr apis
          \<and> (\<forall>r\<in>set (APIs spec). \<exists>info. apis (normalizeAPI r) = Some info \<and> api_Enabled info)
          \<longrightarrow> sync e f ctx s =
                Some (None,
                  s3\<lparr>world := w4,
                     calls := calls s3 @
                       [ServicesList (formatProjectNumber (ProjectNumber project))]\<rparr>)
              \<and> filter mutating
                  (calls s3 @ [ServicesList (formatProjectNumber (ProjectNumber project))])
                = filter mutating (calls s))
       \<and> (FindDefaultCredentials e = None \<and> 4 \<le> length (Name spec)
          \<and> apply_account f ctx spec
            (s\<lparr>world := w2,
               calls := calls s @ [ProjectsGet (ID spec),
                 GetBillingInfo (formatProjectNumber (ProjectNumber project))]\<rparr>)
            = (Inr account, s3)
          \<longrightarrow> apply_cmd e f ctx s =
                batch_enable f ctx (formatProjectNumber (ProjectNumber project))
                  (map normalizeAPI (APIs spec)) s3
              \<and> filter mutating (calls s3) = filter mutating (calls s)
              \<and> (APIs spec = [] \<longrightarrow> apply_cmd e f ctx s = Some (None, s3)))"
proof (intro conjI impI)
  let ?pn = "formatProjectNumber (ProjectNumber project)"
  let ?s1 = "s\<lparr>world := w1, calls := calls s @ [ProjectsGet (ID spec)]\<rparr>"
  let ?s2 = "s\<lparr>world := w2, calls := calls s @ [ProjectsGet (ID spec), GetBillingInfo ?pn]\<rparr>"
  have info': "Projects_GetBillingInfo f ctx ?pn (world ?s1) = (Inr billingInfo, w2)"
    using info by simp
  have s2: "?s1\<lparr>world := w2, calls := calls ?s1 @ [GetBillingInfo ?pn]\<rparr> = ?s2" by simp
  {
    assume h: "sync_account f ctx spec ?s2 = (Inr account, s3)
      \<and> Services_List f ?pn (world s3) = (Inr services, w4)
      \<and> sync_catalog services Map.empty = Inr apis
      \<and> (\<forall>r\<in>set (APIs spec). \<exists>info. apis (normalizeAPI r) = Some info \<and> api_Enabled info)"
    then have "sync_billing e f ctx spec project ?s1 = (None, s3)"
      using billing_linked(2) [OF bil info' same, of spec s3] by (simp only: s2)
    from sync_run [OF spec crm sync_project_exists [OF get] this]
    have "sync e f ctx s = sync_apis e f ctx spec project s3" .
    also have "\<dots> = batch_enable f ctx ?pn []
        (s3\<lparr>world := w4, calls := calls s3 @ [ServicesList ?pn]\<rparr>)"
      using h by (intro sync_apis_listed [OF su] wanted_none) auto
    finally show "sync e f ctx s =
        Some (None, s3\<lparr>world := w4, calls := calls s3 @ [ServicesList ?pn]\<rparr>)"
      by (simp add: batch_enable_nothing)
    from h sync_account_calls [of f ctx spec ?s2 "Inr account" s3]
    show "filter mutating (calls s3 @ [ServicesList ?pn]) = filter mutating (calls s)"
      by simp
  }
  {
    assume h: "FindDefaultCredentials e = None \<and> 4 \<le> length (Name spec)
      \<and> apply_account f ctx spec ?s2 = (Inr account, s3)"
    then have "apply_billing e f ctx spec project ?s1 = (None, s3)"
      using billing_linked(1) [OF bil info' same, of spec s3] by (simp only: s2)
    with h show run: "apply_cmd e f ctx s = batch_enable f ctx ?pn (map normalizeAPI (APIs spec)) s3"
      by (intro apply_cmd_run [OF _ spec _ crm su apply_project_exists [OF get]]) auto
    from h apply_account_calls [of f ctx spec ?s2 "Inr account" s3]
    show "filter mutating (calls s3) = filter mutating (calls s)"
      by simp
    assume "APIs spec = []"
    with run show "apply_cmd e f ctx s = Some (None, s3)"
      by (simp add: batch_enable_nothing)
  }
qed

lemma known_catalog:
  "sync_catalog (map (service_of w) known_services) Map.empty = Inr
     [''cloudbilling.googleapis.com'' \<mapsto>
        \<lparr>api_Name = ''cloudbilling.googleapis.com'', api_Title = ''cloudbilling.googleapis.com'',
         api_Summary = [], api_Enabled = (''cloudbilling.googleapis.com'' \<in> set (r_enabled w))\<rparr>,
      ''compute.googleapis.com'' \<mapsto>
        \<lparr>api_Name = ''compute.googleapis.com'', api_Title = ''compute.googleapis.com'',
         api_Summary = [], api_Enabled = (''compute.googleapis.com'' \<in> set (r_enabled w))\<rparr>,
      ''run.googleapis.com'' \<mapsto>
        \<lparr>api_Name = ''run.googleapis.com'', api_Title = ''run.googleapis.com'',
         api_Summary = [], api_Enabled = (''run.googleapis.com'' \<in> set (r_enabled w))\<rparr>]"
  by (simp add: known_services_def service_of_def)

theorem converged_run_witness:
  "sync (env_of spec_converged) (backend [] True) Background (start converged) =
     Some (None, \<lparr>world = converged, heap = empty_heap,
                  calls = [ProjectsGet ''demo-1'', GetBillingInfo ''projects/7'',
                           ServicesList ''projects/7'']\<rparr>)
   \<and> filter mutating [ProjectsGet ''demo-1'', GetBillingInfo ''projects/7'',
                       ServicesList ''projects/7''] = []"
  using converged_run [of "env_of spec_converged" spec_converged "backend [] True" Background
      "start converged" "the_project ''demo-1''" converged
      "\<lparr>BillingAccountName = ''A'', BillingEnabled = True\<rparr>" converged "''A''"
      "start converged\<lparr>calls := [ProjectsGet ''demo-1'', GetBillingInfo ''projects/7'']\<rparr>"
      "map (service_of converged) known_services" converged
      "[''cloudbilling.googleapis.com'' \<mapsto>
        \<lparr>api_Name = ''cloudbilling.googleapis.com'', api_Title = ''cloudbilling.googleapis.com'',
         api_Summary = [], api_Enabled = True\<rparr>,
      ''compute.googleapis.com'' \<mapsto>
        \<lparr>api_Name = ''compute.googleapis.com'', api_Title = ''compute.googleapis.com'',
         api_Summary = [], api_Enabled = True\<rparr>,
      ''run.googleapis.com'' \<mapsto>
        \<lparr>api_Name = ''run.googleapis.com'', api_Title = ''run.googleapis.com'',
         api_Summary = [], api_Enabled = False\<rparr>]"]
    known_catalog [of converged]
  by (simp add: env_of_def backend_def the_project_def start_def converged_def
      spec_converged_def projects_7 sync_account_def normalizeAPI_def)

text \<open>
  A run of \<^verbatim>\<open>apply\<close> on a converged project whose requested API is enabled already:
  it submits the batch call.
\<close>

theorem converged_apply_counterexample:
  "apply_cmd (env_of spec_converged) (backend [] True) Background (start converged) =
     Some (None,
       \<lparr>world = converged\<lparr>r_enabled := r_enabled converged @ [''compute.googleapis.com'']\<rparr>,
        heap = empty_heap,
        calls = [ProjectsGet ''demo-1'', GetBillingInfo ''projects/7'',
                 BatchEnable ''projects/7'' [''compute.googleapis.com'']]\<rparr>)"
  by (simp add: apply_cmd_def apply_project_def apply_billing_def apply_account_def
      update_billing_def batch_enable_def waitForEnable_def apply_toEnable_eq remote_call_def
      env_of_def backend_def the_project_def start_def converged_def done_op_def
      spec_converged_def projects_7 normalizeAPI_def Let_def)

text \<open>
  C6 (amended). When the list to enable has more than 20 entries, the run ends in the
  batch-limit error and issues no call after the billing phase (\<^verbatim>\<open>sync\<close>: after its
  listing of the services): the batch call for the list is not submitted, not even in
  part. The steps before it have run already.
\<close>

theorem batch_limit:
  assumes spec: "readProjectSpec e = Inr spec"
    and crm: "crm_NewService e = None"
    and su: "su_NewService e = None"
  shows "(FindDefaultCredentials e = None \<and> 4 \<le> length (Name spec)
          \<and> apply_project f ctx spec s = Some (Inr project, s1)
          \<and> apply_billing e f ctx spec project s1 = (None, s2)
          \<and> 20 < length (apply_toEnable spec)
          \<longrightarrow> apply_cmd e f ctx s = Some (Some TooManyAPIs, s2))
       \<and> (sync_project e f ctx spec s = Some (Inr project, s1)
          \<and> sync_billing e f ctx spec project s1 = (None, s2)
          \<and> Services_List f (formatProjectNumber (ProjectNumber project)) (world s2)
              = (Inr services, w3)
          \<and> sync_catalog services Map.empty = Inr apis
          \<and> sync_toEnable apis (APIs spec) [] = Inr toEnable
          \<and> 20 < length toEnable
          \<longrightarrow> sync e f ctx s =
                Some (Some TooManyAPIs,
                  s2\<lparr>world := w3,
                     calls := calls s2 @
                       [ServicesList (formatProjectNumber (ProjectNumber project))]\<rparr>))"
proof (intro conjI impI)
  assume h: "FindDefaultCredentials e = None \<and> 4 \<le> length (Name spec)
          \<and> apply_project f ctx spec s = Some (Inr project, s1)
          \<and> apply_billing e f ctx spec project s1 = (None, s2)
          \<and> 20 < length (apply_toEnable spec)"
  then have "apply_cmd e f ctx s =
      batch_enable f ctx (formatProjectNumber (ProjectNumber project))
        (map normalizeAPI (APIs spec)) s2"
    by (intro apply_cmd_run [OF _ spec _ crm su]) auto
  with h show "apply_cmd e f ctx s = Some (Some TooManyAPIs, s2)"
    by (simp add: batch_enable_limit apply_toEnable_eq)
next
  let ?pn = "formatProjectNumber (ProjectNumber project)"
  assume h: "sync_project e f ctx spec s = Some (Inr project, s1)
          \<and> sync_billing e f ctx spec project s1 = (None, s2)
          \<and> Services_List f ?pn (world s2) = (Inr services, w3)
          \<and> sync_catalog services Map.empty = Inr apis
          \<and> sync_toEnable apis (APIs spec) [] = Inr toEnable
          \<and> 20 < length toEnable"
  then have "sync e f ctx s = sync_apis e f ctx spec project s2"
    by (intro sync_run [OF spec crm]) auto
  also have "\<dots> = batch_enable f ctx ?pn toEnable
      (s2\<lparr>world := w3, calls := calls s2 @ [ServicesList ?pn]\<rparr>)"
    using h by (intro sync_apis_listed [OF su]) auto
  finally show "sync e f ctx s =
      Some (Some TooManyAPIs, s2\<lparr>world := w3, calls := calls s2 @ [ServicesList ?pn]\<rparr>)"
    using h by (simp add: batch_enable_limit)
qed

theorem batch_limit_witness:
  "readProjectSpec (env_of spec_many) = Inr spec_many
   \<and> 20 < length (apply_toEnable spec_many)
   \<and> apply_billing (env_of spec_many) (backend [] True) Background spec_many
        (the_project ''demo-1'')
        (start converged\<lparr>calls := [ProjectsGet ''demo-1'']\<rparr>) =
       (None, start converged\<lparr>calls := [ProjectsGet ''demo-1'', GetBillingInfo ''projects/7'']\<rparr>)
   \<and> apply_cmd (env_of spec_many) (backend [] True) Background (start converged) =
       Some (Some TooManyAPIs,
         start converged\<lparr>calls := [ProjectsGet ''demo-1'', GetBillingInfo ''projects/7'']\<rparr>)"
  using batch_limit [of "env_of spec_many" spec_many "backend [] True" Background
      "start converged" "the_project ''demo-1''"
      "start converged\<lparr>calls := [ProjectsGet ''demo-1'']\<rparr>"
      "start converged\<lparr>calls := [ProjectsGet ''demo-1'', GetBillingInfo ''projects/7'']\<rparr>"]
  by (simp add: env_of_def backend_def the_project_def start_def converged_def
      spec_many_def projects_7 apply_project_def apply_billing_def apply_account_def
      update_billing_def remote_call_def apply_toEnable_eq Let_def)

text \<open>
  A run of \<^verbatim>\<open>apply\<close> that ends in the batch-limit error after it has created the
  project, enabled the billing API and linked the billing account.
\<close>

theorem batch_limit_counterexample:
  "apply_cmd (env_of spec_many) (backend [] True) Background (start absent) =
     Some (Some TooManyAPIs,
       \<lparr>world = \<lparr>r_exists = True, r_account = ''A'',
                 r_enabled = [''cloudbilling.googleapis.com'']\<rparr>,
        heap = snd (copy_labels spec_many ''managed-by'' ''gproj'' empty_heap),
        calls = [ProjectsGet ''demo-1'',
                 ProjectsCreate \<lparr>project_Name = ''demo'', ProjectId = ''demo-1'',
                   project_Labels = [(''managed-by'', ''gproj'')], ProjectNumber = 0\<rparr>,
                 ProjectsGet ''demo-1'',
                 BatchEnable ''projects/7'' [''cloudbilling.googleapis.com''],
                 GetBillingInfo ''projects/7'',
                 UpdateBillingInfo ''projects/7'' ''A'']\<rparr>)"
  by (simp add: apply_cmd_def apply_project_def apply_create_def apply_billing_def
      apply_account_def update_billing_def batch_enable_def waitForEnable_def waitForCreate_def
      apply_toEnable_eq remote_call_def copy_labels_def make_map_def map_store_def map_range_def
      env_of_def backend_def the_project_def start_def absent_def done_op_def empty_heap_def
      spec_many_def projects_7 Let_def)

subsection \<open>Validation of the name\<close>

text \<open>\<^verbatim>\<open>apply\<close> rejects a name of fewer than four bytes before any remote call.\<close>

lemma apply_rejects_short_name:
  assumes "FindDefaultCredentials e = None" "readProjectSpec e = Inr spec"
    "length (Name spec) < 4"
  shows "apply_cmd e f ctx s = Some (Some (NameInvalid (Name spec)), s)"
  using assms by (simp add: apply_cmd_def)

text \<open>
  The test of \<^verbatim>\<open>apply\<close> is on \<^verbatim>\<open>len\<close>, the number of bytes: a name of three
  characters that takes six bytes passes it.
\<close>

lemma apply_counts_bytes:
  "characters (Name spec_umlauts) = 3 \<and> length (Name spec_umlauts) = 6
   \<and> apply_cmd (env_of spec_umlauts) (backend [] True) Background (start converged) =
       Some (None, \<lparr>world = converged, heap = empty_heap,
                    calls = [ProjectsGet ''demo-1'', GetBillingInfo ''projects/7'']\<rparr>)"
  by (simp add: characters_def apply_cmd_def apply_project_def apply_billing_def
      apply_account_def update_billing_def batch_enable_def apply_toEnable_eq remote_call_def
      env_of_def backend_def the_project_def start_def converged_def
      spec_umlauts_def projects_7 Let_def)

text \<open>
  C2. \<^verbatim>\<open>sync\<close> has no validation step: with the three-character name \<^verbatim>\<open>abc\<close> it
  returns no validation error and issues its remote calls.
\<close>

theorem sync_short_name_unchecked:
  "length (Name spec_short) = 3
   \<and> sync (env_of spec_short) (backend [] True) Background (start converged) =
       Some (None, \<lparr>world = converged, heap = empty_heap,
                    calls = [ProjectsGet ''demo-1'', GetBillingInfo ''projects/7'',
                             ServicesList ''projects/7'']\<rparr>)"
  by (simp add: sync_def sync_project_def sync_billing_def sync_account_def sync_apis_def
      update_billing_def batch_enable_def remote_call_def known_catalog
      env_of_def backend_def the_project_def start_def converged_def
      spec_short_def projects_7 Let_def)

subsection \<open>The poller\<close>

lemma poll_world_Suc:
  "poll_world tick fetch (Suc i) w = poll_world tick fetch i (snd (fetch (tick w)))"
  unfolding poll_world_def by (simp only: funpow_Suc_right o_apply)





text \<open>
  The loop returns only when some fetch is not pending; a loop whose fetches all succeed
  with a pending operation does not return.
\<close>

lemma waitForCreate_loop_returns:
  assumes "waitForCreate_loop f ctx name s = Some y"
  shows "\<exists>k. \<not> pending (fst (crm_Operations_Get f ctx name
                  (ticker f (poll_world (ticker f) (crm_Operations_Get f ctx name) k (world s)))))"
proof (rule waitForCreate_loop.raw_induct
    [where P = "\<lambda>f ctx name s y. \<exists>k. \<not> pending (fst (crm_Operations_Get f ctx name
                  (ticker f (poll_world (ticker f) (crm_Operations_Get f ctx name) k (world s)))))",
     OF _ assms], goal_cases)
  case (1 loop f ctx name s y)
  let ?fetch = "crm_Operations_Get f ctx name"
  show ?case
  proof (cases "pending (fst (?fetch (ticker f (world s))))")
    case False
    then have "\<not> pending (fst (?fetch (ticker f (poll_world (ticker f) ?fetch 0 (world s)))))"
      by (simp add: poll_world_def)
    then show ?thesis by blast
  next
    case True
    obtain r w1 where first: "?fetch (ticker f (world s)) = (r, w1)"
      by (cases "?fetch (ticker f (world s))")
    with True obtain op where r: "r = Inr op" and op: "op_Error op = None" "\<not> op_Done op"
      by (auto simp: pending_def split: sum.splits)
    let ?s1 = "s\<lparr>world := w1, calls := calls s @ [CrmOperationsGet name]\<rparr>"
    from 1(2) first r op have "loop f ctx name ?s1 = Some y"
      by (simp add: remote_call_def)
    from 1(1) [OF this] obtain k where
      "\<not> pending (fst (?fetch (ticker f (poll_world (ticker f) ?fetch k (world ?s1)))))" ..
    with first have "\<not> pending (fst (?fetch (ticker f (poll_world (ticker f) ?fetch (Suc k) (world s)))))"
      by (simp add: poll_world_Suc)
    then show ?thesis ..
  qed
qed

lemma waitForCreate_loop_forever:
  assumes "\<forall>i. pending (fst (crm_Operations_Get f ctx name
                  (ticker f (poll_world (ticker f) (crm_Operations_Get f ctx name) i (world s)))))"
  shows "waitForCreate_loop f ctx name s = None"
proof (cases "waitForCreate_loop f ctx name s")
  case None
  then show ?thesis .
next
  case (Some y)
  from waitForCreate_loop_returns [OF this] assms show ?thesis by blast
qed

subsection \<open>The label map of a new project\<close>














lemma fold_map_store_nxt: "nxt (fold (\<lambda>(k, v). map_store a k v) xs h) = nxt h"
  by (induction xs arbitrary: h) (auto simp: map_store_def)
















subsection \<open>The catalog cache\<close>

text \<open>
  C8. When the cache directory is there and the cache file can be read, the lookup returns
  what the decoder makes of the file: the decoded listing as it is, or, if the decoder
  fails, the error that holds the path of the cache file and the decoder's error. In both
  cases no remote call is issued: there is no live fetch.
\<close>

theorem cached_listing:
  assumes dir: "cacheDir c projectNumber s = (Inr dir, s1)"
    and rd: "ReadFile c (Join c [dir, ''available-apis.json'']) (world s1) = (Inr cached, w2)"
  shows "availableAPIs e c ctx projectNumber s =
           (case Unmarshal c cached of
              Inl err \<Rightarrow> Inl (ErrDecodingCache (Join c [dir, ''available-apis.json'']) err)
            | Inr apis \<Rightarrow> Inr apis,
            s1\<lparr>world := w2\<rparr>)
       \<and> calls (snd (availableAPIs e c ctx projectNumber s)) = calls s"
proof -
  from dir have c: "calls s1 = calls s"
    by (auto simp: cacheDir_def local_op_def Let_def split: sum.splits prod.splits option.splits)
  have run: "availableAPIs e c ctx projectNumber s =
           (case Unmarshal c cached of
              Inl err \<Rightarrow> Inl (ErrDecodingCache (Join c [dir, ''available-apis.json'']) err)
            | Inr apis \<Rightarrow> Inr apis,
            s1\<lparr>world := w2\<rparr>)"
    using dir rd by (simp add: availableAPIs_def local_op_def Let_def split: sum.splits)
  with c show ?thesis by simp
qed

theorem cached_listing_witness:
  "cacheDir (cache_with ''{'') 7 \<lparr>world = (), heap = empty_heap, calls = []\<rparr> =
     (Inr ''/home/u/.cache/gproj/7'', \<lparr>world = (), heap = empty_heap, calls = []\<rparr>)
   \<and> availableAPIs (env_of spec_converged) (cache_with ''{'') Background 7
        \<lparr>world = (), heap = empty_heap, calls = []\<rparr> =
       (Inl (ErrDecodingCache ''/home/u/.cache/gproj/7/available-apis.json''
               (OtherError ''unexpected end of JSON input'')),
        \<lparr>world = (), heap = empty_heap, calls = []\<rparr>)
   \<and> availableAPIs (env_of spec_converged) (cache_with ''[]'') Background 7
        \<lparr>world = (), heap = empty_heap, calls = []\<rparr> =
       (Inr [], \<lparr>world = (), heap = empty_heap, calls = []\<rparr>)"
proof -
  have d: "\<And>t. cacheDir (cache_with t) 7 \<lparr>world = (), heap = empty_heap, calls = []\<rparr> =
     (Inr ''/home/u/.cache/gproj/7'', \<lparr>world = (), heap = empty_heap, calls = []\<rparr>)"
    by (simp add: cacheDir_def cache_with_def local_op_def decimal_def digits.simps)
  have r: "\<And>t. ReadFile (cache_with t) (Join (cache_with t) [''/home/u/.cache/gproj/7'', ''available-apis.json''])
      (world \<lparr>world = (), heap = empty_heap, calls = []\<rparr>) = (Inr t, ())"
    by (simp add: cache_with_def)
  from cached_listing [OF d [of "''{''"] r [of "''{''"], where e = "env_of spec_converged"
        and ctx = Background]
    cached_listing [OF d [of "''[]''"] r [of "''[]''"], where e = "env_of spec_converged"
        and ctx = Background]
    d [of "''{''"]
  show ?thesis by (simp add: cache_with_def)
qed

end
